theory Spec2Isabelle
  imports Complex_Main "HOL-Library.Char_ord" "HOL-Library.List_Lexorder"
begin

section \<open>JavaScript values as used by server.js\<close>

text \<open>
  A JavaScript number is modelled as a real number or one of the three special values
  of IEEE arithmetic. Rounding, overflow to infinity and the sign of zero are not
  modelled: finite arithmetic is exact, and a division by zero is visible as an
  infinity or as NaN, as it is in JavaScript.
\<close>

datatype jsnum = Fin real | PosInf | NegInf | NaN

text \<open>
  The values that reach the functions below: cells of the provider's tables (JSON
  null, numbers, strings), \<open>undefined\<close> for a missing cell or property, and the
  numbers the program computes. Strings are lists of code units.
\<close>

datatype jsval = Undefined | Null | Num jsnum | Str string

fun nneg :: "jsnum \<Rightarrow> jsnum" where
  "nneg (Fin a) = Fin (- a)"
| "nneg PosInf = NegInf"
| "nneg NegInf = PosInf"
| "nneg NaN = NaN"

fun nadd :: "jsnum \<Rightarrow> jsnum \<Rightarrow> jsnum" where
  "nadd (Fin a) (Fin b) = Fin (a + b)"
| "nadd NaN _ = NaN"
| "nadd _ NaN = NaN"
| "nadd PosInf NegInf = NaN"
| "nadd NegInf PosInf = NaN"
| "nadd PosInf _ = PosInf"
| "nadd NegInf _ = NegInf"
| "nadd (Fin a) PosInf = PosInf"
| "nadd (Fin a) NegInf = NegInf"

definition nsub :: "jsnum \<Rightarrow> jsnum \<Rightarrow> jsnum" where
  "nsub a b = nadd a (nneg b)"

text \<open>The sign of a number that is not NaN: \<open>-1\<close>, \<open>0\<close> or \<open>1\<close>.\<close>

fun nsign :: "jsnum \<Rightarrow> int" where
  "nsign (Fin a) = (if a < 0 then -1 else if a = 0 then 0 else 1)"
| "nsign PosInf = 1"
| "nsign NegInf = -1"
| "nsign NaN = 0"

definition inf_of_sign :: "int \<Rightarrow> jsnum" where
  "inf_of_sign s = (if s < 0 then NegInf else PosInf)"

fun nmul :: "jsnum \<Rightarrow> jsnum \<Rightarrow> jsnum" where
  "nmul (Fin a) (Fin b) = Fin (a * b)"
| "nmul NaN _ = NaN"
| "nmul _ NaN = NaN"
| "nmul a b = (if nsign a = 0 \<or> nsign b = 0 then NaN else inf_of_sign (nsign a * nsign b))"

text \<open>
  Division: a finite nonzero number divided by zero is an infinity, \<open>0 / 0\<close> and
  \<open>\<infinity> / \<infinity>\<close> are NaN, a finite number divided by an infinity is zero.
\<close>

fun ndiv :: "jsnum \<Rightarrow> jsnum \<Rightarrow> jsnum" where
  "ndiv (Fin a) (Fin b) =
     (if b = 0 then (if a = 0 then NaN else inf_of_sign (nsign (Fin a))) else Fin (a / b))"
| "ndiv NaN _ = NaN"
| "ndiv _ NaN = NaN"
| "ndiv (Fin a) _ = Fin 0"
| "ndiv a (Fin b) = inf_of_sign (if b = 0 then nsign a else nsign a * nsign (Fin b))"
| "ndiv _ _ = NaN"

text \<open>\<open>a < b\<close> on numbers; every comparison with NaN is false.\<close>

fun nless :: "jsnum \<Rightarrow> jsnum \<Rightarrow> bool" where
  "nless (Fin a) (Fin b) = (a < b)"
| "nless NaN _ = False"
| "nless _ NaN = False"
| "nless NegInf b = (b \<noteq> NegInf)"
| "nless a PosInf = (a \<noteq> PosInf)"
| "nless _ _ = False"

definition ngt :: "jsnum \<Rightarrow> jsnum \<Rightarrow> bool" where
  "ngt a b = nless b a"

definition nle :: "jsnum \<Rightarrow> jsnum \<Rightarrow> bool" where
  "nle a b = (a \<noteq> NaN \<and> b \<noteq> NaN \<and> \<not> nless b a)"

definition nge :: "jsnum \<Rightarrow> jsnum \<Rightarrow> bool" where
  "nge a b = nle b a"

subsection \<open>Strings to numbers\<close>

text \<open>
  White space that \<open>parseInt\<close> and the string-to-number conversion skip: TAB, LF, VT,
  FF, CR, SP and NBSP. The white space beyond code unit 255 is not representable in
  \<^typ>\<open>string\<close>.
\<close>

definition isWhiteSpace :: "char \<Rightarrow> bool" where
  "isWhiteSpace c = (of_char c \<in> {9, 10, 11, 12, 13, 32, 160 :: nat})"

definition digitOf :: "char \<Rightarrow> nat option" where
  "digitOf c =
     (let n = (of_char c :: nat) in
      if 48 \<le> n \<and> n \<le> 57 then Some (n - 48)
      else if 97 \<le> n \<and> n \<le> 122 then Some (n - 87)
      else if 65 \<le> n \<and> n \<le> 90 then Some (n - 55)
      else None)"

definition isDigitIn :: "nat \<Rightarrow> char \<Rightarrow> bool" where
  "isDigitIn r c = (case digitOf c of None \<Rightarrow> False | Some d \<Rightarrow> d < r)"

definition digitsValue :: "nat \<Rightarrow> string \<Rightarrow> nat" where
  "digitsValue r s = foldl (\<lambda>acc c. acc * r + (case digitOf c of None \<Rightarrow> 0 | Some d \<Rightarrow> d)) 0 s"

definition isDigits :: "nat \<Rightarrow> string \<Rightarrow> bool" where
  "isDigits r s = (s \<noteq> [] \<and> list_all (isDigitIn r) s)"

definition trimStart :: "string \<Rightarrow> string" where
  "trimStart s = dropWhile isWhiteSpace s"

definition trim :: "string \<Rightarrow> string" where
  "trim s = rev (dropWhile isWhiteSpace (rev (dropWhile isWhiteSpace s)))"

definition pow10 :: "int \<Rightarrow> real" where
  "pow10 e = (if 0 \<le> e then 10 ^ nat e else 1 / 10 ^ nat (- e))"

text \<open>The exponent part of a decimal literal, after the \<open>e\<close>: an optional sign and digits.\<close>

definition exponentValue :: "string \<Rightarrow> int option" where
  "exponentValue s =
     (case s of
        [] \<Rightarrow> None
      | c # cs \<Rightarrow>
          if c = CHR ''+'' then (if isDigits 10 cs then Some (int (digitsValue 10 cs)) else None)
          else if c = CHR ''-'' then (if isDigits 10 cs then Some (- int (digitsValue 10 cs)) else None)
          else if isDigits 10 s then Some (int (digitsValue 10 s)) else None)"

text \<open>
  An unsigned decimal literal: \<open>Infinity\<close>, or digits with an optional fraction and an
  optional exponent, at least one digit in the mantissa.
\<close>

definition strUnsignedDecimal :: "string \<Rightarrow> jsnum" where
  "strUnsignedDecimal t =
     (if t = ''Infinity'' then PosInf
      else
        let isE = (\<lambda>c. c = CHR ''e'' \<or> c = CHR ''E'');
            mant = takeWhile (\<lambda>c. \<not> isE c) t;
            rest = dropWhile (\<lambda>c. \<not> isE c) t;
            ex = (if rest = [] then Some 0 else exponentValue (tl rest));
            ip = takeWhile (\<lambda>c. c \<noteq> CHR ''.'') mant;
            dotted = dropWhile (\<lambda>c. c \<noteq> CHR ''.'') mant;
            fp = (if dotted = [] then [] else tl dotted)
        in if list_all (isDigitIn 10) ip \<and> list_all (isDigitIn 10) fp \<and> (ip \<noteq> [] \<or> fp \<noteq> [])
           then (case ex of
                   None \<Rightarrow> NaN
                 | Some e \<Rightarrow>
                     Fin ((real (digitsValue 10 ip) + real (digitsValue 10 fp) / 10 ^ length fp)
                          * pow10 e))
           else NaN)"

definition StringToNumber :: "string \<Rightarrow> jsnum" where
  "StringToNumber s =
     (let t = trim s in
      if t = [] then Fin 0
      else if take 2 t \<in> {''0x'', ''0X''} then
        (if isDigits 16 (drop 2 t) then Fin (real (digitsValue 16 (drop 2 t))) else NaN)
      else if take 2 t \<in> {''0o'', ''0O''} then
        (if isDigits 8 (drop 2 t) then Fin (real (digitsValue 8 (drop 2 t))) else NaN)
      else if take 2 t \<in> {''0b'', ''0B''} then
        (if isDigits 2 (drop 2 t) then Fin (real (digitsValue 2 (drop 2 t))) else NaN)
      else if hd t = CHR ''+'' then strUnsignedDecimal (tl t)
      else if hd t = CHR ''-'' then nneg (strUnsignedDecimal (tl t))
      else strUnsignedDecimal t)"

text \<open>
  \<open>parseInt(string)\<close> without a radix: leading white space and a sign are skipped, a
  \<open>0x\<close> prefix selects radix 16, the longest prefix of digits is read, and no digit at
  all gives NaN.
\<close>

definition parseInt :: "string \<Rightarrow> jsnum" where
  "parseInt s =
     (let t = trimStart s;
          neg = (t \<noteq> [] \<and> hd t = CHR ''-'');
          u = (if t \<noteq> [] \<and> (hd t = CHR ''+'' \<or> hd t = CHR ''-'') then tl t else t);
          hex = (take 2 u \<in> {''0x'', ''0X''});
          r = (if hex then 16 else 10);
          z = takeWhile (isDigitIn r) (if hex then drop 2 u else u)
      in if z = [] then NaN
         else if neg then Fin (- real (digitsValue r z)) else Fin (real (digitsValue r z)))"

subsection \<open>Conversions and operators on values\<close>

fun toNumber :: "jsval \<Rightarrow> jsnum" where
  "toNumber Undefined = NaN"
| "toNumber Null = Fin 0"
| "toNumber (Num n) = n"
| "toNumber (Str s) = StringToNumber s"

fun truthy :: "jsval \<Rightarrow> bool" where
  "truthy Undefined = False"
| "truthy Null = False"
| "truthy (Num n) = (n \<noteq> NaN \<and> n \<noteq> Fin 0)"
| "truthy (Str s) = (s \<noteq> [])"

text \<open>\<open>a || b\<close>\<close>

definition js_or :: "jsval \<Rightarrow> jsval \<Rightarrow> jsval" where
  "js_or a b = (if truthy a then a else b)"

text \<open>\<open>isNaN(v)\<close>\<close>

definition isNaN :: "jsval \<Rightarrow> bool" where
  "isNaN v = (toNumber v = NaN)"

text \<open>\<open>a - b\<close> and \<open>a / b\<close>: both operands are converted to numbers.\<close>

definition js_sub :: "jsval \<Rightarrow> jsval \<Rightarrow> jsnum" where
  "js_sub a b = nsub (toNumber a) (toNumber b)"

definition js_div :: "jsval \<Rightarrow> jsval \<Rightarrow> jsnum" where
  "js_div a b = ndiv (toNumber a) (toNumber b)"

text \<open>\<open>Math.min(...xs)\<close> and \<open>Math.max(...xs)\<close>: each argument is converted to a number.\<close>

definition nmin2 :: "jsnum \<Rightarrow> jsnum \<Rightarrow> jsnum" where
  "nmin2 a b = (if a = NaN \<or> b = NaN then NaN else if nless b a then b else a)"

definition nmax2 :: "jsnum \<Rightarrow> jsnum \<Rightarrow> jsnum" where
  "nmax2 a b = (if a = NaN \<or> b = NaN then NaN else if nless a b then b else a)"

definition Math_min :: "jsval list \<Rightarrow> jsnum" where
  "Math_min xs = foldl nmin2 PosInf (map toNumber xs)"

definition Math_max :: "jsval list \<Rightarrow> jsnum" where
  "Math_max xs = foldl nmax2 NegInf (map toNumber xs)"

section \<open>The dual-factor weight engine\<close>

text \<open>
  The records \<open>{code, dividendYield, roce, marketCap}\<close> that the factor worker returns.
  The processed records of \<open>calculateDualFactorWeights\<close> have no \<open>marketCap\<close>
  property; reading it gives \<open>undefined\<close>, which is what the field holds here.
\<close>

record stockFactors =
  code :: string
  dividendYield :: jsval
  roce :: jsval
  marketCap :: jsval

record weightResult =
  weights :: "string \<rightharpoonup> jsnum"
  processedFactors :: "stockFactors list"

text \<open>\<open>s.roce !== null && !isNaN(s.roce)\<close>\<close>

definition validRoce :: "stockFactors \<Rightarrow> bool" where
  "validRoce s = (roce s \<noteq> Null \<and> \<not> isNaN (roce s))"

text \<open>The body of \<open>validStocks.map\<close>: a zero dividend yield becomes \<open>0.01\<close>.\<close>

definition processStock :: "stockFactors \<Rightarrow> stockFactors" where
  "processStock s =
     (let dy = js_or (dividendYield s) (Num (Fin 0));
          dy' = (if dy = Num (Fin 0) then Num (Fin (1 / 100)) else dy)
      in \<lparr>code = code s, dividendYield = dy', roce = roce s, marketCap = Undefined\<rparr>)"

text \<open>\<open>x || 1\<close> on a number.\<close>

definition orOne :: "jsnum \<Rightarrow> jsnum" where
  "orOne x = (if truthy (Num x) then x else Fin 1)"

definition scoreOf :: "jsnum \<Rightarrow> jsnum \<Rightarrow> jsnum \<Rightarrow> jsnum \<Rightarrow> stockFactors \<Rightarrow> string \<times> jsnum" where
  "scoreOf minDiv rangeDiv minRoce rangeRoce s =
     (let normDiv = ndiv (nsub (toNumber (dividendYield s)) minDiv) rangeDiv;
          normRoce = ndiv (nsub (toNumber (roce s)) minRoce) rangeRoce
      in (code s, ndiv (nadd normDiv normRoce) (Fin 2)))"

text \<open>
  The \<open>scores\<close> array (lines 386 to 406): both factors are min-max normalised over the
  processed records, a zero (or NaN) range is replaced by 1, and the score is the
  average of the two normalised factors.
\<close>

definition compositeScores :: "stockFactors list \<Rightarrow> (string \<times> jsnum) list" where
  "compositeScores processedStocks =
     (let divYields = map dividendYield processedStocks;
          roces = map roce processedStocks;
          minDiv = Math_min divYields;
          maxDiv = Math_max divYields;
          minRoce = Math_min roces;
          maxRoce = Math_max roces;
          rangeDiv = orOne (nsub maxDiv minDiv);
          rangeRoce = orOne (nsub maxRoce minRoce)
      in map (scoreOf minDiv rangeDiv minRoce rangeRoce) processedStocks)"

text \<open>
  The weights object built from the scores (lines 408 to 414): each score divided by
  the total score, or \<open>1 / scores.length\<close> when the total is not positive.
\<close>

definition proportionalWeights :: "(string \<times> jsnum) list \<Rightarrow> (string \<rightharpoonup> jsnum)" where
  "proportionalWeights scores =
     (let totalScore = foldl (\<lambda>sum s. nadd sum (snd s)) (Fin 0) scores
      in foldl (\<lambda>w s. w(fst s \<mapsto>
                  (if ngt totalScore (Fin 0) then ndiv (snd s) totalScore
                   else ndiv (Fin 1) (Fin (real (length scores)))))) Map.empty scores)"

definition calculateDualFactorWeights :: "stockFactors list \<Rightarrow> weightResult" where
  "calculateDualFactorWeights stocksFactors =
     (let validStocks = filter validRoce stocksFactors in
      if length validStocks = 0 then
        let equalWeight = ndiv (Fin 1) (Fin (real (length stocksFactors)));
            weights = foldl (\<lambda>w s. w(code s \<mapsto> equalWeight)) Map.empty stocksFactors
        in \<lparr>weights = weights, processedFactors = stocksFactors\<rparr>
      else
        let processedStocks = map processStock validStocks;
            scores = compositeScores processedStocks
        in \<lparr>weights = proportionalWeights scores, processedFactors = processedStocks\<rparr>)"

section \<open>The weight engine in double precision\<close>

text \<open>
  A JavaScript number is an IEEE 754 double. The operations of the first section
  compute with exact reals, which agrees with the program wherever no result is
  rounded and none overflows. The proportional weights of lines 386 to 414 are
  quotients and sums of quotients, so there every operation rounds. This section
  defines rounding to the nearest double, ties to even, with gradual underflow and
  overflow to an infinity, and then the weight engine with every arithmetic result
  rounded. The sign of a zero is not represented: it can only show in a division by
  zero, and the engine divides by a range that \<open>|| 1\<close> keeps from zero, by 2, by a total
  it has tested to be positive, and by the length of a list that is not empty.
\<close>

subsection \<open>Rounding a real to a double\<close>

text \<open>
  The binade of a positive real, the integer part of its logarithm to base 2, searched
  by halving or doubling at most \<open>k\<close> times. With \<open>k = 1100\<close> the search ends before the
  bound for every real between \<open>2 powi (- 1100)\<close> and \<open>2 powi 1100\<close>; beyond, the result
  is the bound, and the rounded value is zero or an infinity as it has to be.
\<close>

fun ilog2 :: "nat \<Rightarrow> real \<Rightarrow> int" where
  "ilog2 0 x = 0"
| "ilog2 (Suc k) x =
     (if 2 \<le> x then ilog2 k (x / 2) + 1 else if x < 1 then ilog2 k (x * 2) - 1 else 0)"

text \<open>The nearest integer, a tie going to the even one.\<close>

definition roundEven :: "real \<Rightarrow> int" where
  "roundEven y =
     (let f = \<lfloor>y\<rfloor>; r = y - of_int f
      in if r < 1 / 2 then f else if 1 / 2 < r then f + 1 else if even f then f else f + 1)"

text \<open>
  The exponent of the unit in the last place: 52 below the binade, and never below
  \<open>-1074\<close>, the exponent of the smallest subnormal double.
\<close>

definition ulpExp :: "real \<Rightarrow> int" where
  "ulpExp x = max (ilog2 1100 x - 52) (- 1074)"

text \<open>A positive real rounded to the nearest multiple of its unit in the last place.\<close>

definition rdpos :: "real \<Rightarrow> real" where
  "rdpos x = of_int (roundEven (x / 2 powi ulpExp x)) * 2 powi ulpExp x"

text \<open>
  Rounding to a double: a magnitude that rounds to \<open>2 ^ 1024\<close> or more is an infinity, a
  magnitude of at most half the smallest subnormal is zero.
\<close>

definition rd64 :: "real \<Rightarrow> jsnum" where
  "rd64 x =
     (if x = 0 then Fin 0
      else if 0 < x then (if 2 ^ 1024 \<le> rdpos x then PosInf else Fin (rdpos x))
      else (if 2 ^ 1024 \<le> rdpos (- x) then NegInf else Fin (- rdpos (- x))))"

definition round64 :: "jsnum \<Rightarrow> jsnum" where
  "round64 a = (case a of Fin x \<Rightarrow> rd64 x | _ \<Rightarrow> a)"



definition div64 :: "jsnum \<Rightarrow> jsnum \<Rightarrow> jsnum" where
  "div64 a b = round64 (ndiv a b)"





subsection \<open>calculateDualFactorWeights on doubles\<close>










section \<open>The batch scheduler\<close>

text \<open>\<open>xs.slice(start, end)\<close>: a negative index counts from the end, both are clamped.\<close>

definition js_slice :: "'a list \<Rightarrow> int \<Rightarrow> int \<Rightarrow> 'a list" where
  "js_slice xs start end =
     (let len = int (length xs);
          k = (if start < 0 then max (len + start) 0 else min start len);
          final = (if end < 0 then max (len + end) 0 else min end len)
      in take (nat (final - k)) (drop (nat k) xs))"

text \<open>
  \<open>Promise.all\<close>. A promise that has settled is \<open>Inr v\<close> (fulfilled with \<open>v\<close>) or
  \<open>Inl e\<close> (rejected with \<open>e\<close>). The promises of one call settle in some order, given as
  the list of their positions. Each fulfilment stores its value at the promise's own
  position; the first rejection rejects the whole. When the list of settlements ends
  with a position still empty, the combined promise never settles: \<open>None\<close>.
\<close>

fun settleAll :: "('e + 'r) list \<Rightarrow> nat list \<Rightarrow> 'r option list \<Rightarrow> 'e + 'r option list" where
  "settleAll ps [] values = Inr values"
| "settleAll ps (k # order) values =
     (if k < length ps then
        (case ps ! k of
           Inl e \<Rightarrow> Inl e
         | Inr v \<Rightarrow> settleAll ps order (values[k := Some v]))
      else settleAll ps order values)"

definition Promise_all :: "('e + 'r) list \<Rightarrow> nat list \<Rightarrow> ('e + 'r list) option" where
  "Promise_all ps order =
     (case settleAll ps order (replicate (length ps) None) of
        Inl e \<Rightarrow> Some (Inl e)
      | Inr values \<Rightarrow>
          if list_all (\<lambda>v. v \<noteq> None) values then Some (Inr (map the values)) else None)"

text \<open>
  \<open>batchProcess(items, processor, batchSize)\<close>. The processor gives, for an item and
  its index, the outcome of the promise it returns. \<open>settleOrder i\<close> is the order in
  which the promises of the window starting at \<open>i\<close> settle. The result is \<open>None\<close> when
  the function never returns (a window that never settles, or a loop that does not
  advance), \<open>Some (Inl e)\<close> when it rejects, \<open>Some (Inr results)\<close> when it returns. The
  pause between windows and the log lines do not affect the result.
\<close>

partial_function (option) batchProcess_loop ::
  "'a list \<Rightarrow> ('a \<Rightarrow> int \<Rightarrow> 'e + 'r) \<Rightarrow> int \<Rightarrow> (int \<Rightarrow> nat list) \<Rightarrow> int \<Rightarrow> 'r list
     \<Rightarrow> ('e + 'r list) option" where
  "batchProcess_loop items processor batchSize settleOrder i results =
     (if i < int (length items) then
        (let batch = js_slice items i (i + batchSize);
             promises = map (\<lambda>(item, batchIndex). processor item (i + int batchIndex))
                          (zip batch [0..<length batch])
         in case Promise_all promises (settleOrder i) of
              None \<Rightarrow> None
            | Some (Inl e) \<Rightarrow> Some (Inl e)
            | Some (Inr batchResults) \<Rightarrow>
                batchProcess_loop items processor batchSize settleOrder (i + batchSize)
                  (results @ batchResults))
      else Some (Inr results))"

definition batchProcess ::
  "'a list \<Rightarrow> ('a \<Rightarrow> int \<Rightarrow> 'e + 'r) \<Rightarrow> int \<Rightarrow> (int \<Rightarrow> nat list) \<Rightarrow> ('e + 'r list) option" where
  "batchProcess items processor batchSize settleOrder =
     batchProcess_loop items processor batchSize settleOrder 0 []"

section \<open>The provider's tables\<close>

text \<open>
  The provider answers with \<open>{fields, items}\<close>: the column names and the rows, each row
  an array of cells. A cell that a row does not have reads as \<open>undefined\<close>, as does the
  index \<open>-1\<close> that \<open>indexOf\<close> returns for a missing column.
\<close>

datatype tabular = Tabular (fields: "string list") (items: "jsval list list")

fun indexOf :: "'a list \<Rightarrow> 'a \<Rightarrow> int" where
  "indexOf [] x = - 1"
| "indexOf (y # ys) x =
     (if y = x then 0 else (let r = indexOf ys x in if r < 0 then - 1 else r + 1))"

definition cell :: "jsval list \<Rightarrow> int \<Rightarrow> jsval" where
  "cell row i = (if 0 \<le> i \<and> i < int (length row) then row ! nat i else Undefined)"

text \<open>
  \<open>a <= b\<close>: two strings are compared by code units, anything else as numbers.
\<close>

fun js_le :: "jsval \<Rightarrow> jsval \<Rightarrow> bool" where
  "js_le (Str a) (Str b) = (a \<le> b)"
| "js_le a b = nle (toNumber a) (toNumber b)"

text \<open>\<open>[...new Set(xs)]\<close>: the distinct values in the order of their first occurrence.\<close>

definition js_Set :: "'a list \<Rightarrow> 'a list" where
  "js_Set xs = foldl (\<lambda>seen x. if x \<in> set seen then seen else seen @ [x]) [] xs"

text \<open>
  \<open>Array.prototype.sort\<close> with a comparator. The sort is stable, so for a comparator
  that is a consistent ordering its result is the one of this stable insertion sort:
  each element goes behind the elements already placed that do not compare greater. A
  comparator result that is not positive, NaN included, leaves the earlier element
  first.
\<close>

fun insertBy :: "('a \<Rightarrow> 'a \<Rightarrow> jsnum) \<Rightarrow> 'a \<Rightarrow> 'a list \<Rightarrow> 'a list" where
  "insertBy cmp x [] = [x]"
| "insertBy cmp x (y # ys) =
     (if ngt (cmp y x) (Fin 0) then x # y # ys else y # insertBy cmp x ys)"

definition sortBy :: "('a \<Rightarrow> 'a \<Rightarrow> jsnum) \<Rightarrow> 'a list \<Rightarrow> 'a list" where
  "sortBy cmp xs = foldl (\<lambda>sorted x. insertBy cmp x sorted) [] xs"

text \<open>
  \<open>a.localeCompare(b)\<close> on the provider's date labels. On strings of ASCII digits the
  collation order is the order of the code units; the collation of other strings
  depends on the locale and is not modelled.
\<close>

definition localeCompare :: "string \<Rightarrow> string \<Rightarrow> jsnum" where
  "localeCompare a b = (if a < b then Fin (- 1) else if a = b then Fin 0 else Fin 1)"

definition isDateLabel :: "string \<Rightarrow> bool" where
  "isDateLabel s = list_all (isDigitIn 10) s"

definition endsWith :: "string \<Rightarrow> string \<Rightarrow> bool" where
  "endsWith s suffix =
     (length suffix \<le> length s \<and> drop (length s - length suffix) s = suffix)"

fun isStr :: "jsval \<Rightarrow> bool" where
  "isStr (Str s) = True"
| "isStr _ = False"

fun strOf :: "jsval \<Rightarrow> string" where
  "strOf (Str s) = s"
| "strOf _ = []"

section \<open>The holdings resolver\<close>

text \<open>Q2 and Q4 reports carry the full holdings.\<close>

definition isFullReport :: "string \<Rightarrow> bool" where
  "isFullReport date = (endsWith date ''0630'' \<or> endsWith date ''1231'')"

text \<open>
  \<open>getFundPortfolio\<close>, from the provider's answer on. The first argument is the answer
  of the \<open>fund_portfolio\<close> call, \<open>None\<close> when the call threw or returned no data; the
  second is \<open>today\<close>, the current date as \<open>YYYYMMDD\<close>. The result \<open>None\<close> is the \<open>null\<close> the
  function returns, also from its \<open>catch\<close>: a period that is not a string makes
  \<open>localeCompare\<close> or \<open>endsWith\<close> throw a TypeError, which is caught there.
\<close>

definition getFundPortfolio :: "tabular option \<Rightarrow> string \<Rightarrow> tabular option" where
  "getFundPortfolio response today =
     (case response of
        None \<Rightarrow> None
      | Some data \<Rightarrow>
          if length (items data) = 0 then None
          else
            let endDateIdx = indexOf (fields data) ''end_date'' in
            if endDateIdx < 0 then Some data
            else
              let notFuture = filter (\<lambda>date. js_le date (Str today))
                                (js_Set (map (\<lambda>item. cell item endDateIdx) (items data)))
              in
              if \<not> list_all isStr notFuture then None
              else
                let endDates = sortBy (\<lambda>a b. localeCompare b a) (map strOf notFuture) in
                if length endDates = 0 then None
                else
                  let fullReportDates = filter isFullReport endDates;
                      latestEndDate = (if length fullReportDates > 0 then fullReportDates ! 0
                                       else endDates ! 0);
                      latestItems = filter (\<lambda>item. cell item endDateIdx = Str latestEndDate)
                                      (items data)
                  in Some (Tabular (fields data) latestItems))"

section \<open>The symbol normalizer\<close>

text \<open>\<open>s.padStart(n, c)\<close> with a one-character pad string.\<close>

definition padStart :: "string \<Rightarrow> nat \<Rightarrow> char \<Rightarrow> string" where
  "padStart s n c = replicate (n - length s) c @ s"

text \<open>
  The function mapped over \<open>symbols\<close> to build \<open>stockCodes\<close> in the \<open>/api/backtest-etf\<close>
  handler (lines 477 to 509). Its argument is a symbol cell that passed
  \<open>filter(s => s)\<close>, a non-empty string.
\<close>

definition symbolToTsCode :: "string \<Rightarrow> string" where
  "symbolToTsCode symbol =
     (if CHR ''.'' \<in> set symbol then symbol
      else
        let code = parseInt symbol in
        if nge code (Fin 600000) \<and> nle code (Fin 609999) then symbol @ ''.SH''
        else if nge code (Fin 600000) \<and> nle code (Fin 699999) then symbol @ ''.SH''
        else if nge code (Fin 0) \<and> nle code (Fin 3999) then padStart symbol 6 (CHR ''0'') @ ''.SZ''
        else if nge code (Fin 300000) \<and> nle code (Fin 309999) then symbol @ ''.SZ''
        else if nge code (Fin 2000) \<and> nle code (Fin 2999) then padStart symbol 6 (CHR ''0'') @ ''.SZ''
        else padStart symbol 6 (CHR ''0'') @ ''.SZ'')"

section \<open>The factor worker\<close>

text \<open>
  The worker that \<open>/api/backtest-etf\<close> runs for each stock code (lines 539 to 654),
  from the three provider answers on: \<open>None\<close> is the \<open>null\<close> that \<open>getDailyBasic\<close>,
  \<open>getIncomeStatement\<close> and \<open>getBalanceSheet\<close> return after a failed call. Each block reads
  the first row of its table.
\<close>

definition hasRows :: "tabular option \<Rightarrow> bool" where
  "hasRows t = (case t of None \<Rightarrow> False | Some d \<Rightarrow> length (items d) > 0)"

definition firstRow :: "tabular option \<Rightarrow> jsval list" where
  "firstRow t = (case t of None \<Rightarrow> [] | Some d \<Rightarrow> (case items d of [] \<Rightarrow> [] | r # _ \<Rightarrow> r))"

definition fieldIndex :: "tabular option \<Rightarrow> string \<Rightarrow> int" where
  "fieldIndex t name = (case t of None \<Rightarrow> - 1 | Some d \<Rightarrow> indexOf (fields d) name)"

text \<open>Lines 549 to 575: \<open>dv_ratio\<close> first, then \<open>dv_ttm\<close>; the market capitalisation.\<close>

definition dividendAndCap :: "tabular option \<Rightarrow> jsval \<times> jsval" where
  "dividendAndCap dailyBasicInfo =
     (if hasRows dailyBasicInfo then
        let row = firstRow dailyBasicInfo;
            dvYieldIdx = fieldIndex dailyBasicInfo ''dv_ratio'';
            dvTtmIdx = fieldIndex dailyBasicInfo ''dv_ttm'';
            totalMvIdx = fieldIndex dailyBasicInfo ''total_mv'';
            dividendYield =
              (if dvYieldIdx \<ge> 0 \<and> truthy (cell row dvYieldIdx) then cell row dvYieldIdx
               else if dvTtmIdx \<ge> 0 \<and> truthy (cell row dvTtmIdx) then cell row dvTtmIdx
               else Num (Fin 0));
            marketCap =
              (if totalMvIdx \<ge> 0 \<and> truthy (cell row totalMvIdx) then cell row totalMvIdx
               else Null)
        in (dividendYield, marketCap)
      else (Num (Fin 0), Null))"

text \<open>Lines 578 to 602: EBIT, else the operating profit, else the total profit.\<close>

definition ebitOf :: "tabular option \<Rightarrow> jsval" where
  "ebitOf incomeData =
     (if hasRows incomeData then
        let row = firstRow incomeData;
            ebitIdx = fieldIndex incomeData ''ebit'';
            operateProfitIdx = fieldIndex incomeData ''operate_profit'';
            totalProfitIdx = fieldIndex incomeData ''total_profit''
        in if ebitIdx \<ge> 0 \<and> truthy (cell row ebitIdx) then cell row ebitIdx
           else if operateProfitIdx \<ge> 0 \<and> truthy (cell row operateProfitIdx)
             then cell row operateProfitIdx
           else if totalProfitIdx \<ge> 0 \<and> truthy (cell row totalProfitIdx)
             then cell row totalProfitIdx
           else Null
      else Null)"

text \<open>
  Lines 604 to 627: total assets and current liabilities; without current liabilities,
  total assets minus the shareholders' equity stands in for them.
\<close>

definition balanceOf :: "tabular option \<Rightarrow> jsval \<times> jsval" where
  "balanceOf balanceData =
     (if hasRows balanceData then
        let row = firstRow balanceData;
            assetsIdx = fieldIndex balanceData ''total_assets'';
            liabIdx = fieldIndex balanceData ''total_cur_liab'';
            equityIdx = fieldIndex balanceData ''total_hldr_eqy_exc_min_int'';
            totalAssets = (if assetsIdx \<ge> 0 then cell row assetsIdx else Null);
            currentLiab = (if liabIdx \<ge> 0 then cell row liabIdx else Null);
            currentLiab' =
              (if \<not> truthy currentLiab \<and> equityIdx \<ge> 0 then
                 (let totalEquity = cell row equityIdx
                  in if truthy totalEquity then Num (js_sub totalAssets totalEquity)
                     else currentLiab)
               else currentLiab)
        in (totalAssets, currentLiab')
      else (Null, Null))"

text \<open>Lines 629 to 637: the ROCE in percent, or \<open>null\<close>.\<close>

definition roceOf :: "jsval \<Rightarrow> jsval \<Rightarrow> jsval \<Rightarrow> jsval" where
  "roceOf ebit totalAssets currentLiab =
     (if truthy ebit \<and> truthy totalAssets \<and> truthy currentLiab then
        let capitalEmployed = js_sub totalAssets currentLiab
        in if ngt capitalEmployed (Fin 0)
           then Num (nmul (ndiv (toNumber ebit) capitalEmployed) (Fin 100))
           else Null
      else Null)"

definition factorWorker ::
  "string \<Rightarrow> tabular option \<Rightarrow> tabular option \<Rightarrow> tabular option \<Rightarrow> stockFactors" where
  "factorWorker stockCode dailyBasicInfo incomeData balanceData =
     (let (dividendYield, marketCap) = dividendAndCap dailyBasicInfo;
          ebit = ebitOf incomeData;
          (totalAssets, currentLiab) = balanceOf balanceData;
          roce = roceOf ebit totalAssets currentLiab
      in \<lparr>code = stockCode, dividendYield = js_or dividendYield (Num (Fin 0)),
          roce = roce, marketCap = marketCap\<rparr>)"

section \<open>The net-value aggregator\<close>

datatype jserror = TypeError

text \<open>
  \<open>weights[stock.code] || 0\<close>: a code without an entry reads as \<open>undefined\<close>, and a
  falsy weight becomes 0.
\<close>

definition weightOf :: "(string \<rightharpoonup> jsnum) \<Rightarrow> string \<Rightarrow> jsnum" where
  "weightOf weightMap c =
     (case weightMap c of None \<Rightarrow> Fin 0 | Some w \<Rightarrow> if truthy (Num w) then w else Fin 0)"

text \<open>
  The \<open>dateMap\<close>: a \<open>Map\<close> from the date cell to \<open>{count, sum}\<close>, kept in insertion order.
  One step of the inner loop (lines 306 to 312) creates the entry of a new date and adds
  the daily value to the entry's sum.
\<close>

fun addDaily :: "jsval \<Rightarrow> jsnum \<Rightarrow> (jsval \<times> nat \<times> jsnum) list \<Rightarrow> (jsval \<times> nat \<times> jsnum) list" where
  "addDaily date dailyValue [] = [(date, 1, nadd (Fin 0) dailyValue)]"
| "addDaily date dailyValue ((d, cnt, acc) # m) =
     (if d = date then (d, cnt + 1, nadd acc dailyValue) # m
      else (d, cnt, acc) # addDaily date dailyValue m)"

text \<open>
  The body of \<open>stocksData.forEach\<close> (lines 285 to 314) for one stock \<open>{code, data}\<close>: a
  stock without rows or with weight 0 is skipped; the rows are sorted by date as numbers,
  and each close is divided by the first close and multiplied by the weight.
\<close>

definition addStock ::
  "(string \<rightharpoonup> jsnum) \<Rightarrow> (jsval \<times> nat \<times> jsnum) list \<Rightarrow> string \<times> tabular option
     \<Rightarrow> (jsval \<times> nat \<times> jsnum) list" where
  "addStock weightMap dateMap stock =
     (case snd stock of
        None \<Rightarrow> dateMap
      | Some d \<Rightarrow>
          if length (items d) = 0 then dateMap
          else
            let dateIdx = indexOf (fields d) ''trade_date'';
                closeIdx = indexOf (fields d) ''close'';
                weight = weightOf weightMap (fst stock)
            in if weight = Fin 0 then dateMap
               else
                 let sortedItems = sortBy (\<lambda>a b. js_sub (cell a dateIdx) (cell b dateIdx)) (items d);
                     initialPrice = cell (sortedItems ! 0) closeIdx
                 in foldl (\<lambda>m item.
                       addDaily (cell item dateIdx)
                         (nmul (js_div (cell item closeIdx) initialPrice) weight) m)
                      dateMap sortedItems)"

text \<open>
  \<open>netValueData\<close> before it is normalised (lines 317 to 322): the sums by date, sorted
  with \<open>a.date.localeCompare(b.date)\<close>. With fewer than two entries the comparator is
  not called. With more, a date that is not a string raises a TypeError when the
  comparator is called on it; which entries an engine compares is not fixed, and the
  model reports the error whenever such a date is present.
\<close>

definition mergedSeries ::
  "(string \<times> tabular option) list \<Rightarrow> (string \<rightharpoonup> jsnum) \<Rightarrow> jserror + (jsval \<times> jsnum) list" where
  "mergedSeries stocksData weightMap =
     (let dateMap = foldl (addStock weightMap) [] stocksData;
          entries = map (\<lambda>(date, count, sum). (date, sum)) dateMap
      in if length entries \<le> 1 then Inr entries
         else if list_all (\<lambda>e. isStr (fst e)) entries
           then Inr (sortBy (\<lambda>a b. localeCompare (strOf (fst a)) (strOf (fst b))) entries)
         else Inl TypeError)"

text \<open>Lines 324 to 332: divide every value by the first one when that is positive.\<close>

definition normalizeNetValue :: "(jsval \<times> jsnum) list \<Rightarrow> (jsval \<times> jsnum) list" where
  "normalizeNetValue netValueData =
     (if length netValueData > 0 then
        let initialValue = snd (netValueData ! 0)
        in if ngt initialValue (Fin 0)
           then map (\<lambda>(date, netValue). (date, ndiv netValue initialValue)) netValueData
           else netValueData
      else netValueData)"

definition calculatePortfolioNetValue ::
  "(string \<times> tabular option) list \<Rightarrow> (string \<rightharpoonup> jsnum) \<Rightarrow> jserror + (jsval \<times> jsnum) list" where
  "calculatePortfolioNetValue stocksData weightMap =
     (case mergedSeries stocksData weightMap of
        Inl e \<Rightarrow> Inl e
      | Inr netValueData \<Rightarrow> Inr (normalizeNetValue netValueData))"

text \<open>
  \<open>calculateETFNetValue\<close>: the fund's own series, each row's \<open>nav\<close> (or else \<open>close\<close>)
  divided by that of the first row by date, or by 1 when the first row has neither.
\<close>

definition calculateETFNetValue :: "tabular option \<Rightarrow> (jsval \<times> jsnum) list" where
  "calculateETFNetValue etfData =
     (case etfData of
        None \<Rightarrow> []
      | Some d \<Rightarrow>
          if length (items d) = 0 then []
          else
            let dateIdx = indexOf (fields d) ''trade_date'';
                navIdx = indexOf (fields d) ''nav'';
                closeIdx = indexOf (fields d) ''close'';
                sortedItems = sortBy (\<lambda>a b. js_sub (cell a dateIdx) (cell b dateIdx)) (items d);
                initialValue = js_or (js_or (cell (sortedItems ! 0) navIdx)
                                            (cell (sortedItems ! 0) closeIdx)) (Num (Fin 1))
            in map (\<lambda>item. (cell item dateIdx,
                      js_div (js_or (cell item navIdx) (cell item closeIdx)) initialValue))
                 sortedItems)"

section \<open>Verified properties\<close>

subsection \<open>The weight engine: fallback branches\<close>

lemma foldl_upd_lookup:
  "foldl (\<lambda>w s. w(k s \<mapsto> v)) m xs c = (if c \<in> k ` set xs then Some v else m c)"
  by (induction xs arbitrary: m) auto

text \<open>
  Claim C10. On the empty list of factor records the engine takes the equal-weight
  branch, assigns no entry, and returns the empty weight map and no processed record:
  no infinite or NaN weight appears.
\<close>

theorem calculateDualFactorWeights_empty:
  "weights (calculateDualFactorWeights []) = Map.empty \<and>
   processedFactors (calculateDualFactorWeights []) = []"
  by (simp add: calculateDualFactorWeights_def)

text \<open>
  Claim C4. When the list of factor records is not empty and no record has a present
  ROCE value (one that is neither \<open>null\<close> nor NaN), every record of the input list gets
  the weight \<open>1 / N\<close>, where \<open>N\<close> is the length of the whole input list, and the records
  are returned unprocessed.
\<close>

theorem calculateDualFactorWeights_equal_fallback:
  assumes "stocksFactors \<noteq> []"
    and "\<forall>s \<in> set stocksFactors. \<not> validRoce s"
  shows "(\<forall>s \<in> set stocksFactors.
            weights (calculateDualFactorWeights stocksFactors) (code s)
              = Some (Fin (1 / real (length stocksFactors)))) \<and>
         processedFactors (calculateDualFactorWeights stocksFactors) = stocksFactors"
proof -
  from assms(2) have empty: "filter validRoce stocksFactors = []"
    by (simp add: filter_empty_conv)
  from assms(1) have pos: "real (length stocksFactors) \<noteq> 0"
    by simp
  have "\<forall>s \<in> set stocksFactors.
           weights (calculateDualFactorWeights stocksFactors) (code s)
             = Some (Fin (1 / real (length stocksFactors)))"
    using pos by (simp add: calculateDualFactorWeights_def empty foldl_upd_lookup)
  moreover have "processedFactors (calculateDualFactorWeights stocksFactors) = stocksFactors"
    by (simp add: calculateDualFactorWeights_def empty)
  ultimately show ?thesis by simp
qed

theorem calculateDualFactorWeights_equal_fallback_witness:
  "weights (calculateDualFactorWeights
      [\<lparr>code = ''600000.SH'', dividendYield = Num (Fin 3), roce = Null, marketCap = Null\<rparr>,
       \<lparr>code = ''000001.SZ'', dividendYield = Num (Fin 0), roce = Num NaN, marketCap = Null\<rparr>])
     ''000001.SZ'' = Some (Fin (1 / 2))"
  using calculateDualFactorWeights_equal_fallback
    [of "[\<lparr>code = ''600000.SH'', dividendYield = Num (Fin 3), roce = Null, marketCap = Null\<rparr>,
          \<lparr>code = ''000001.SZ'', dividendYield = Num (Fin 0), roce = Num NaN, marketCap = Null\<rparr>]"]
  by (simp add: validRoce_def isNaN_def)

subsection \<open>The batch scheduler\<close>

lemma settleAll_fulfilled:
  assumes "\<forall>k < length ps. ps ! k = Inr (f k)" and "length vals = length ps"
  shows "settleAll ps order vals
           = Inr (map (\<lambda>k. if k \<in> set order then Some (f k) else vals ! k) [0..<length ps])"
  using assms(2)
proof (induction order arbitrary: vals)
  case Nil
  then show ?case using map_nth [of vals] by simp
next
  case (Cons k order)
  show ?case
  proof (cases "k < length ps")
    case True
    with assms(1) have pk: "ps ! k = Inr (f k)" by simp
    have "settleAll ps (k # order) vals = settleAll ps order (vals[k := Some (f k)])"
      using True pk by simp
    also have "\<dots> = Inr (map (\<lambda>j. if j \<in> set order then Some (f j)
                                   else vals[k := Some (f k)] ! j) [0..<length ps])"
      using Cons.prems by (intro Cons.IH) simp
    also have "\<dots> = Inr (map (\<lambda>j. if j \<in> set (k # order) then Some (f j) else vals ! j)
                           [0..<length ps])"
      using Cons.prems by (auto simp: nth_list_update)
    finally show ?thesis .
  next
    case False
    have "settleAll ps (k # order) vals = settleAll ps order vals"
      using False by simp
    also have "\<dots> = Inr (map (\<lambda>j. if j \<in> set order then Some (f j) else vals ! j)
                           [0..<length ps])"
      using Cons.prems by (rule Cons.IH)
    also have "\<dots> = Inr (map (\<lambda>j. if j \<in> set (k # order) then Some (f j) else vals ! j)
                           [0..<length ps])"
      using False by auto
    finally show ?thesis .
  qed
qed

lemma Promise_all_fulfilled:
  assumes "\<forall>k < length ps. ps ! k = Inr (f k)" and "set order = {..<length ps}"
  shows "Promise_all ps order = Some (Inr (map f [0..<length ps]))"
proof -
  have "settleAll ps order (replicate (length ps) None)
          = Inr (map (\<lambda>k. Some (f k)) [0..<length ps])"
    using settleAll_fulfilled [OF assms(1), of "replicate (length ps) None" order] assms(2)
    by simp
  then show ?thesis
    by (simp add: Promise_all_def list_all_iff comp_def)
qed

lemma js_slice_window:
  assumes "0 \<le> i" and "0 \<le> b"
  shows "js_slice xs i (i + b) = take (nat b) (drop (nat i) xs)"
proof -
  have "take (nat (min (i + b) (int (length xs)) - min i (int (length xs))))
          (drop (nat (min i (int (length xs)))) xs) = take (nat b) (drop (nat i) xs)"
  proof (cases "i \<le> int (length xs)")
    case True
    then have "take (nat (min (i + b) (int (length xs)) - i)) (drop (nat i) xs)
                 = take (nat b) (drop (nat i) xs)"
      using assms by (auto simp: min_def)
    with True show ?thesis by (simp add: min_def)
  next
    case False
    then show ?thesis using assms by simp
  qed
  then show ?thesis using assms by (simp add: js_slice_def Let_def)
qed

lemma batchProcess_loop_returns:
  fixes items :: "'a list" and processor :: "'a \<Rightarrow> int \<Rightarrow> 'e + 'r"
  assumes size: "1 \<le> batchSize"
    and fulfilled: "\<forall>k < length items. processor (items ! k) (int k) = Inr (result k)"
    and settle: "\<forall>n. int n * batchSize < int (length items) \<longrightarrow>
                   set (settleOrder (int n * batchSize))
                     = {..<length (js_slice items (int n * batchSize)
                                     (int n * batchSize + batchSize))}"
  shows "0 \<le> i \<Longrightarrow> \<exists>n. i = int n * batchSize \<Longrightarrow>
         batchProcess_loop items processor batchSize settleOrder i results
           = Some (Inr (results @ map result [nat i..<length items]))"
proof (induction "length items - nat i" arbitrary: i results rule: less_induct)
  case less
  show ?case
  proof (cases "i < int (length items)")
    case False
    then show ?thesis
      using less.prems(1) by (subst batchProcess_loop.simps) simp
  next
    case True
    then have lt_i: "nat i < length items" using less.prems(1) by simp
    define batch where "batch = js_slice items i (i + batchSize)"
    define promises where "promises = map (\<lambda>(item, batchIndex). processor item (i + int batchIndex))
                          (zip batch [0..<length batch])"
    have batch: "batch = take (nat batchSize) (drop (nat i) items)"
      using less.prems(1) size by (simp add: batch_def js_slice_window)
    have len: "length batch = min (nat batchSize) (length items - nat i)"
      by (simp add: batch)
    have lp: "length promises = length batch" by (simp add: promises_def)
    have each: "\<forall>k < length promises. promises ! k = Inr (result (nat i + k))"
    proof (intro allI impI)
      fix k assume k: "k < length promises"
      then have kb: "k < length batch" by (simp add: lp)
      have lt: "nat i + k < length items" using kb len by linarith
      from lt kb have bk: "batch ! k = items ! (nat i + k)" by (simp add: batch)
      have ik: "i + int k = int (nat i + k)" using less.prems(1) by simp
      have "promises ! k = processor (items ! (nat i + k)) (int (nat i + k))"
        using kb by (simp add: promises_def bk ik del: of_nat_add)
      also have "\<dots> = Inr (result (nat i + k))"
        using fulfilled lt by blast
      finally show "promises ! k = Inr (result (nat i + k))" .
    qed
    from less.prems(2) obtain n where n: "i = int n * batchSize" by blast
    have order: "set (settleOrder i) = {..<length promises}"
      using settle True unfolding n lp batch_def by blast
    have all: "Promise_all promises (settleOrder i)
                 = Some (Inr (map (\<lambda>k. result (nat i + k)) [0..<length batch]))"
      using Promise_all_fulfilled [OF each order] by (simp add: lp)
    have shift: "map (\<lambda>k. result (nat i + k)) [0..<length batch]
                   = map result [nat i..<nat i + length batch]"
    proof -
      have "[nat i..<nat i + length batch] = map (\<lambda>k. k + nat i) [0..<length batch]"
        by (simp add: map_add_upt add.commute)
      then show ?thesis by (simp add: comp_def add.commute)
    qed
    have step: "batchProcess_loop items processor batchSize settleOrder i results
                  = batchProcess_loop items processor batchSize settleOrder (i + batchSize)
                      (results @ map result [nat i..<nat i + length batch])"
      using True all
      by (subst batchProcess_loop.simps) (simp add: Let_def shift flip: batch_def promises_def)
    have nat_next: "nat (i + batchSize) = nat i + nat batchSize"
      using less.prems(1) size by (simp add: nat_add_distrib)
    have "batchProcess_loop items processor batchSize settleOrder (i + batchSize)
            (results @ map result [nat i..<nat i + length batch])
          = Some (Inr ((results @ map result [nat i..<nat i + length batch])
                       @ map result [nat (i + batchSize)..<length items]))"
    proof (rule less.hyps)
      show "length items - nat (i + batchSize) < length items - nat i"
        using True less.prems(1) size by (simp add: nat_next)
      show "0 \<le> i + batchSize" using less.prems(1) size by simp
      have "i + batchSize = int (Suc n) * batchSize" by (simp add: n algebra_simps)
      then show "\<exists>m. i + batchSize = int m * batchSize" by blast
    qed
    also have "(results @ map result [nat i..<nat i + length batch])
                 @ map result [nat (i + batchSize)..<length items]
               = results @ map result [nat i..<length items]"
    proof (cases "nat batchSize \<le> length items - nat i")
      case True
      with lt_i have "nat i + nat batchSize + (length items - (nat i + nat batchSize)) = length items"
        by linarith
      with upt_add_eq_append [of "nat i" "nat i + nat batchSize"
          "length items - (nat i + nat batchSize)"]
      have "[nat i..<length items]
              = [nat i..<nat i + nat batchSize] @ [nat i + nat batchSize..<length items]"
        by simp
      with True show ?thesis by (simp add: len nat_next min_def)
    next
      case False
      then have e: "[nat (i + batchSize)..<length items] = []"
        by (simp add: nat_next)
      from lt_i have "nat i + (length items - nat i) = length items" by simp
      with False e show ?thesis by (simp add: len min_def)
    qed
    finally show ?thesis using step by simp
  qed
qed

text \<open>
  Claim C1. For a non-empty list of items and a window size of at least 1, when no
  worker rejects and every worker of every window settles, \<open>batchProcess\<close> returns a
  list as long as the input whose element at each position is the value the worker
  produced for the item at that position, whatever the order in which the workers of a
  window settle.
\<close>

theorem batchProcess_positional:
  fixes items :: "'a list" and processor :: "'a \<Rightarrow> int \<Rightarrow> 'e + 'r"
  assumes "items \<noteq> []"
    and "1 \<le> batchSize"
    and "\<forall>k < length items. \<exists>r. processor (items ! k) (int k) = Inr r"
    and "\<forall>n. int n * batchSize < int (length items) \<longrightarrow>
           set (settleOrder (int n * batchSize))
             = {..<length (js_slice items (int n * batchSize) (int n * batchSize + batchSize))}"
  shows "\<exists>rs. batchProcess items processor batchSize settleOrder = Some (Inr rs) \<and>
              length rs = length items \<and>
              (\<forall>k < length items. processor (items ! k) (int k) = Inr (rs ! k))"
proof -
  define result where "result = (\<lambda>k. projr (processor (items ! k) (int k)))"
  have fulfilled: "\<forall>k < length items. processor (items ! k) (int k) = Inr (result k)"
    using assms(3) by (auto simp: result_def)
  have "batchProcess items processor batchSize settleOrder
          = Some (Inr (map result [0..<length items]))"
  proof -
    have "\<exists>n. (0 :: int) = int n * batchSize" by (rule exI [of _ 0]) simp
    with batchProcess_loop_returns [OF assms(2) fulfilled assms(4), of 0 "[]"]
    show ?thesis by (simp add: batchProcess_def)
  qed
  with fulfilled show ?thesis by simp
qed

theorem batchProcess_positional_witness:
  "batchProcess [''a'', ''b'', ''c''] (\<lambda>item index. Inr (item, index) :: unit + string \<times> int) 2
     (\<lambda>i. if i = 0 then [1, 0] else [0])
   = Some (Inr [(''a'', 0), (''b'', 1), (''c'', 2)])"
proof -
  let ?items = "[''a'', ''b'', ''c'']"
  let ?processor = "\<lambda>item index. Inr (item, index) :: unit + string \<times> int"
  let ?order = "\<lambda>i :: int. if i = 0 then [1, 0] else [0 :: nat]"
  have h1: "?items \<noteq> []" by simp
  have h2: "(1 :: int) \<le> 2" by simp
  have h3: "\<forall>k < length ?items. \<exists>r. ?processor (?items ! k) (int k) = Inr r" by simp
  have h4: "\<forall>n. int n * 2 < int (length ?items) \<longrightarrow>
              set (?order (int n * 2))
                = {..<length (js_slice ?items (int n * 2) (int n * 2 + 2))}"
  proof (intro allI impI)
    fix n :: nat assume "int n * 2 < int (length ?items)"
    then consider "n = 0" | "n = 1" by fastforce
    then show "set (?order (int n * 2))
                 = {..<length (js_slice ?items (int n * 2) (int n * 2 + 2))}"
      by cases (auto simp: js_slice_def)
  qed
  from batchProcess_positional [OF h1 h2 h3 h4]
  obtain rs where rs: "batchProcess ?items ?processor 2 ?order = Some (Inr rs)"
    and len: "length rs = 3"
    and nth: "\<forall>k < 3. (?items ! k, int k) = rs ! k"
    by auto
  from nth [rule_format, of 0] nth [rule_format, of 1] nth [rule_format, of 2]
  have "rs ! 0 = (''a'', 0)" "rs ! 1 = (''b'', 1)" "rs ! 2 = (''c'', 2)"
    by simp_all
  with len have "rs = [(''a'', 0), (''b'', 1), (''c'', 2)]"
    by (intro nth_equalityI) (auto simp: less_Suc_eq numeral_3_eq_3 numeral_2_eq_2)
  with rs show ?thesis by simp
qed

subsection \<open>The holdings resolver\<close>

lemma set_js_Set_aux:
  "set (foldl (\<lambda>seen x. if x \<in> set seen then seen else seen @ [x]) acc xs) = set acc \<union> set xs"
  by (induction xs arbitrary: acc) auto

lemma set_js_Set: "set (js_Set xs) = set xs"
  by (simp add: js_Set_def set_js_Set_aux)

lemma set_insertBy: "set (insertBy cmp x ys) = insert x (set ys)"
  by (induction ys) auto

lemma set_sortBy_aux:
  "set (foldl (\<lambda>sorted x. insertBy cmp x sorted) acc xs) = set acc \<union> set xs"
  by (induction xs arbitrary: acc) (auto simp: set_insertBy)

lemma set_sortBy: "set (sortBy cmp xs) = set xs"
  by (simp add: sortBy_def set_sortBy_aux)

lemma ngt_localeCompare: "ngt (localeCompare a b) (Fin 0) = (b < a)"
  by (auto simp: localeCompare_def ngt_def)

lemma descending_insertBy:
  assumes "sorted_wrt (\<lambda>a b. b \<le> a) ys"
  shows "sorted_wrt (\<lambda>a b. b \<le> a) (insertBy (\<lambda>a b. localeCompare b a) x ys)"
  using assms
  by (induction ys) (auto simp: ngt_localeCompare set_insertBy)

lemma descending_sortBy_aux:
  "sorted_wrt (\<lambda>a b. b \<le> a) acc \<Longrightarrow>
   sorted_wrt (\<lambda>a b. b \<le> a) (foldl (\<lambda>sorted x. insertBy (\<lambda>a b. localeCompare b a) x sorted) acc xs)"
  by (induction xs arbitrary: acc) (auto simp: descending_insertBy)

lemma descending_sortBy:
  "sorted_wrt (\<lambda>a b. b \<le> a) (sortBy (\<lambda>a b. localeCompare b a) xs)"
  by (simp add: sortBy_def descending_sortBy_aux)

lemma descending_first:
  fixes xs :: "string list"
  assumes "sorted_wrt (\<lambda>a b. b \<le> a) xs" and "p \<in> set xs"
  shows "p \<le> xs ! 0"
  using assms by (cases xs) auto

lemma first_in_set: "xs \<noteq> [] \<Longrightarrow> xs ! 0 \<in> set xs"
  by (cases xs) auto

lemma getFundPortfolio_selection:
  fixes data :: tabular and today :: string
  defines "idx \<equiv> indexOf (fields data) ''end_date''"
  defines "notFuture \<equiv> {p. (\<exists>item \<in> set (items data). cell item idx = Str p) \<and> p \<le> today}"
  assumes rows: "items data \<noteq> []"
    and col: "0 \<le> idx"
    and labels: "\<forall>item \<in> set (items data). \<exists>p. cell item idx = Str p"
  shows "(notFuture = {} \<longrightarrow> getFundPortfolio (Some data) today = None) \<and>
         (notFuture \<noteq> {} \<longrightarrow>
            (\<exists>sel \<in> notFuture.
               getFundPortfolio (Some data) today
                 = Some (Tabular (fields data)
                     (filter (\<lambda>item. cell item idx = Str sel) (items data))) \<and>
               (if \<exists>p \<in> notFuture. isFullReport p
                then isFullReport sel \<and> (\<forall>p \<in> notFuture. isFullReport p \<longrightarrow> p \<le> sel)
                else \<forall>p \<in> notFuture. p \<le> sel)))"
proof -
  define NF where "NF = filter (\<lambda>date. js_le date (Str today))
                          (js_Set (map (\<lambda>item. cell item idx) (items data)))"
  define D where "D = sortBy (\<lambda>a b. localeCompare b a) (map strOf NF)"
  define F where "F = filter isFullReport D"
  define sel where "sel = (if length F > 0 then F ! 0 else D ! 0)"
  have setNF: "set NF = Str ` notFuture"
  proof
    show "set NF \<subseteq> Str ` notFuture"
    proof
      fix v assume "v \<in> set NF"
      then obtain item where item: "item \<in> set (items data)" "v = cell item idx"
        and le: "js_le v (Str today)"
        by (auto simp: NF_def set_js_Set)
      from labels item obtain p where p: "cell item idx = Str p" by auto
      with le item(2) have "p \<le> today" by simp
      with p item have "p \<in> notFuture" by (auto simp: notFuture_def)
      with p item(2) show "v \<in> Str ` notFuture" by simp
    qed
    show "Str ` notFuture \<subseteq> set NF"
      by (auto simp: NF_def set_js_Set notFuture_def image_iff) (metis js_le.simps(1))
  qed
  then have strs: "list_all isStr NF"
    by (auto simp: list_all_iff)
  have setD: "set D = notFuture"
    by (auto simp: D_def set_sortBy setNF image_iff)
  have descD: "sorted_wrt (\<lambda>a b. b \<le> a) D"
    by (simp add: D_def descending_sortBy)
  have descF: "sorted_wrt (\<lambda>a b. b \<le> a) F"
    by (simp add: F_def descD sorted_wrt_filter)
  have setF: "set F = {p \<in> notFuture. isFullReport p}"
    by (auto simp: F_def setD)
  have unfold: "getFundPortfolio (Some data) today =
      (if length D = 0 then None
       else Some (Tabular (fields data) (filter (\<lambda>item. cell item idx = Str sel) (items data))))"
    using rows col strs
    by (simp add: getFundPortfolio_def Let_def sel_def F_def D_def NF_def idx_def)
  show ?thesis
  proof (intro conjI impI)
    assume "notFuture = {}"
    then have "D = []" using setD by simp
    then show "getFundPortfolio (Some data) today = None" by (simp add: unfold)
  next
    assume ne: "notFuture \<noteq> {}"
    then have Dne: "D \<noteq> []" using setD by auto
    have res: "getFundPortfolio (Some data) today
                 = Some (Tabular (fields data)
                     (filter (\<lambda>item. cell item idx = Str sel) (items data)))"
      using Dne by (simp add: unfold)
    show "\<exists>sel \<in> notFuture.
               getFundPortfolio (Some data) today
                 = Some (Tabular (fields data)
                     (filter (\<lambda>item. cell item idx = Str sel) (items data))) \<and>
               (if \<exists>p \<in> notFuture. isFullReport p
                then isFullReport sel \<and> (\<forall>p \<in> notFuture. isFullReport p \<longrightarrow> p \<le> sel)
                else \<forall>p \<in> notFuture. p \<le> sel)"
    proof (cases "F = []")
      case True
      then have nofull: "\<not> (\<exists>p \<in> notFuture. isFullReport p)"
        using setF by auto
      from True have s: "sel = D ! 0" by (simp add: sel_def)
      have "sel \<in> notFuture" using first_in_set [OF Dne] setD s by simp
      moreover have "\<forall>p \<in> notFuture. p \<le> sel"
        using descending_first [OF descD] setD s by simp
      ultimately show ?thesis using res nofull by auto
    next
      case False
      then have s: "sel = F ! 0" by (simp add: sel_def)
      from first_in_set [OF False] have inF: "sel \<in> set F" by (simp add: s)
      then have full: "\<exists>p \<in> notFuture. isFullReport p" "isFullReport sel" "sel \<in> notFuture"
        using setF by auto
      have "\<forall>p \<in> notFuture. isFullReport p \<longrightarrow> p \<le> sel"
        using descending_first [OF descF] setF s by simp
      then show ?thesis using res full by auto
    qed
  qed
qed

lemma isFullReport_examples:
  "\<not> isFullReport ''20230331''" "isFullReport ''20230630''" "isFullReport ''20231231''"
  by (simp_all add: isFullReport_def endsWith_def)

text \<open>
  Claim C2. For a holdings disclosure whose \<open>end_date\<close> cells are date labels, and the
  current date \<open>today\<close>: the resolver returns nothing when every reporting period is
  later than \<open>today\<close>; otherwise it selects a period that is not later than \<open>today\<close>, the
  most recent of those ending in \<open>0630\<close> or \<open>1231\<close> when there is one and the most recent
  of all otherwise, and returns exactly the rows of that period. With the periods
  \<open>20230331\<close>, \<open>20230630\<close>, \<open>20231231\<close> and today \<open>20240101\<close> it selects \<open>20231231\<close>; with
  \<open>20230331\<close> alone, not in the future, it selects \<open>20230331\<close>.
\<close>

theorem getFundPortfolio_latest_period:
  fixes data :: tabular and today :: string
  assumes rows: "items data \<noteq> []"
    and col: "0 \<le> indexOf (fields data) ''end_date''"
    and labels: "\<forall>item \<in> set (items data).
                   \<exists>p. cell item (indexOf (fields data) ''end_date'') = Str p \<and> isDateLabel p"
  shows "let idx = indexOf (fields data) ''end_date'';
             periods = {p. \<exists>item \<in> set (items data). cell item idx = Str p};
             notFuture = {p \<in> periods. p \<le> today};
             rowsOf = (\<lambda>p. Some (Tabular (fields data)
                          (filter (\<lambda>item. cell item idx = Str p) (items data))))
         in (notFuture = {} \<longrightarrow> getFundPortfolio (Some data) today = None) \<and>
            (notFuture \<noteq> {} \<longrightarrow>
               (\<exists>sel \<in> notFuture.
                  getFundPortfolio (Some data) today = rowsOf sel \<and>
                  (if \<exists>p \<in> notFuture. isFullReport p
                   then isFullReport sel \<and> (\<forall>p \<in> notFuture. isFullReport p \<longrightarrow> p \<le> sel)
                   else \<forall>p \<in> notFuture. p \<le> sel))) \<and>
            (periods = {''20230331'', ''20230630'', ''20231231''} \<and> today = ''20240101'' \<longrightarrow>
               getFundPortfolio (Some data) today = rowsOf ''20231231'') \<and>
            (periods = {''20230331''} \<and> ''20230331'' \<le> today \<longrightarrow>
               getFundPortfolio (Some data) today = rowsOf ''20230331'')"
proof -
  define idx where "idx = indexOf (fields data) ''end_date''"
  define periods where "periods = {p. \<exists>item \<in> set (items data). cell item idx = Str p}"
  define notFuture where "notFuture = {p \<in> periods. p \<le> today}"
  define rowsOf where "rowsOf = (\<lambda>p. Some (Tabular (fields data)
                          (filter (\<lambda>item. cell item idx = Str p) (items data))))"
  define best where "best = (\<lambda>sel. if \<exists>p \<in> notFuture. isFullReport p
       then isFullReport sel \<and> (\<forall>p \<in> notFuture. isFullReport p \<longrightarrow> p \<le> sel)
       else \<forall>p \<in> notFuture. p \<le> sel)"
  have nf: "{p. (\<exists>item \<in> set (items data). cell item idx = Str p) \<and> p \<le> today} = notFuture"
    by (auto simp: notFuture_def periods_def)
  from labels have strs: "\<forall>item \<in> set (items data). \<exists>p. cell item idx = Str p"
    unfolding idx_def by blast
  from col have col': "0 \<le> idx" by (simp add: idx_def)
  have sel: "(notFuture = {} \<longrightarrow> getFundPortfolio (Some data) today = None) \<and>
             (notFuture \<noteq> {} \<longrightarrow>
                (\<exists>sel \<in> notFuture. getFundPortfolio (Some data) today = rowsOf sel \<and> best sel))"
    using getFundPortfolio_selection [OF rows col' [unfolded idx_def] strs [unfolded idx_def],
        of today]
    unfolding idx_def [symmetric] nf rowsOf_def best_def .
  have ex1: "getFundPortfolio (Some data) today = rowsOf ''20231231''"
    if "periods = {''20230331'', ''20230630'', ''20231231''}" "today = ''20240101''"
  proof -
    from that have all: "notFuture = {''20230331'', ''20230630'', ''20231231''}"
      unfolding notFuture_def by auto
    then have "notFuture \<noteq> {}" by simp
    with sel obtain s where s: "s \<in> notFuture"
      "getFundPortfolio (Some data) today = rowsOf s" "best s"
      by blast
    have "''20231231'' \<in> notFuture" "isFullReport ''20231231''"
      by (simp_all add: all isFullReport_examples)
    then have "\<exists>p \<in> notFuture. isFullReport p" by blast
    with s(3) have "\<forall>p \<in> notFuture. isFullReport p \<longrightarrow> p \<le> s"
      by (simp add: best_def)
    with \<open>''20231231'' \<in> notFuture\<close> \<open>isFullReport ''20231231''\<close>
    have "''20231231'' \<le> s" by blast
    moreover from s(1) have "s \<in> {''20230331'', ''20230630'', ''20231231''}"
      by (simp add: all)
    ultimately have "s = ''20231231''" by auto
    with s(2) show ?thesis by simp
  qed
  have ex2: "getFundPortfolio (Some data) today = rowsOf ''20230331''"
    if "periods = {''20230331''}" "''20230331'' \<le> today"
  proof -
    from that have all: "notFuture = {''20230331''}"
      unfolding notFuture_def by auto
    then have "notFuture \<noteq> {}" by simp
    with sel obtain s where "s \<in> notFuture" "getFundPortfolio (Some data) today = rowsOf s"
      by blast
    then show ?thesis by (simp add: all)
  qed
  have "(notFuture = {} \<longrightarrow> getFundPortfolio (Some data) today = None) \<and>
        (notFuture \<noteq> {} \<longrightarrow>
           (\<exists>sel \<in> notFuture. getFundPortfolio (Some data) today = rowsOf sel \<and> best sel)) \<and>
        (periods = {''20230331'', ''20230630'', ''20231231''} \<and> today = ''20240101'' \<longrightarrow>
           getFundPortfolio (Some data) today = rowsOf ''20231231'') \<and>
        (periods = {''20230331''} \<and> ''20230331'' \<le> today \<longrightarrow>
           getFundPortfolio (Some data) today = rowsOf ''20230331'')"
    using sel ex1 ex2 by (intro conjI impI) (erule conjE, assumption | blast)+
  then show ?thesis
    unfolding Let_def best_def rowsOf_def notFuture_def periods_def idx_def .
qed


theorem getFundPortfolio_latest_period_witness:
  "getFundPortfolio
     (Some (Tabular [''ts_code'', ''end_date'', ''symbol'']
        [[Str ''512890.SH'', Str ''20231231'', Str ''600011''],
         [Str ''512890.SH'', Str ''20230630'', Str ''600011''],
         [Str ''512890.SH'', Str ''20231231'', Str ''000651''],
         [Str ''512890.SH'', Str ''20230331'', Str ''600011'']]))
     ''20240101''
   = Some (Tabular [''ts_code'', ''end_date'', ''symbol'']
        [[Str ''512890.SH'', Str ''20231231'', Str ''600011''],
         [Str ''512890.SH'', Str ''20231231'', Str ''000651'']])"
proof -
  let ?data = "Tabular [''ts_code'', ''end_date'', ''symbol'']
        [[Str ''512890.SH'', Str ''20231231'', Str ''600011''],
         [Str ''512890.SH'', Str ''20230630'', Str ''600011''],
         [Str ''512890.SH'', Str ''20231231'', Str ''000651''],
         [Str ''512890.SH'', Str ''20230331'', Str ''600011'']]"
  have idx: "indexOf (fields ?data) ''end_date'' = 1" by simp
  have h1: "items ?data \<noteq> []" by simp
  have h2: "0 \<le> indexOf (fields ?data) ''end_date''" by simp
  have h3: "\<forall>item \<in> set (items ?data).
              \<exists>p. cell item (indexOf (fields ?data) ''end_date'') = Str p \<and> isDateLabel p"
    unfolding idx by (simp add: cell_def isDateLabel_def isDigitIn_def digitOf_def)
  have periods: "{p. \<exists>item \<in> set (items ?data). cell item (indexOf (fields ?data) ''end_date'') = Str p}
                   = {''20230331'', ''20230630'', ''20231231''}"
    unfolding idx by (auto simp: cell_def)
  from getFundPortfolio_latest_period [OF h1 h2 h3, of "''20240101''"] periods
  have "getFundPortfolio (Some ?data) ''20240101''
          = Some (Tabular (fields ?data)
              (filter (\<lambda>item. cell item (indexOf (fields ?data) ''end_date'') = Str ''20231231'')
                 (items ?data)))"
    unfolding Let_def by blast
  then show ?thesis unfolding idx by (simp add: cell_def)
qed

subsection \<open>The symbol normalizer\<close>

lemma digitsValue_bound_aux:
  assumes "list_all (isDigitIn r) z"
  shows "foldl (\<lambda>acc c. acc * r + (case digitOf c of None \<Rightarrow> 0 | Some d \<Rightarrow> d)) a z + 1
           \<le> (a + 1) * r ^ length z"
  using assms
proof (induction z arbitrary: a)
  case Nil
  then show ?case by simp
next
  case (Cons c z)
  from Cons.prems obtain d where d: "digitOf c = Some d" "d < r"
    by (auto simp: isDigitIn_def split: option.splits)
  from Cons.prems have "list_all (isDigitIn r) z" by simp
  from Cons.IH [OF this, of "a * r + d"]
  have "foldl (\<lambda>acc c. acc * r + (case digitOf c of None \<Rightarrow> 0 | Some d \<Rightarrow> d)) (a * r + d) z + 1
          \<le> (a * r + d + 1) * r ^ length z" .
  also have "a * r + d + 1 \<le> (a + 1) * r" using d(2) by (simp add: algebra_simps)
  then have "(a * r + d + 1) * r ^ length z \<le> ((a + 1) * r) * r ^ length z"
    by (rule mult_le_mono1)
  finally show ?case by (simp add: d(1) algebra_simps)
qed

lemma digitsValue_bound:
  "list_all (isDigitIn r) z \<Longrightarrow> digitsValue r z < r ^ length z"
  using digitsValue_bound_aux [of r z 0] by (simp add: digitsValue_def)

lemma parseInt_large_length:
  assumes "parseInt s = Fin n" and "300000 \<le> n"
  shows "6 \<le> length s"
proof -
  define t where "t = trimStart s"
  define u where "u = (if t \<noteq> [] \<and> (hd t = CHR ''+'' \<or> hd t = CHR ''-'') then tl t else t)"
  define hex where "hex = (take 2 u \<in> {''0x'', ''0X''})"
  define r :: nat where "r = (if hex then 16 else 10)"
  define w where "w = (if hex then drop 2 u else u)"
  define z where "z = takeWhile (isDigitIn r) w"
  have p: "parseInt s = (if z = [] then NaN
             else if t \<noteq> [] \<and> hd t = CHR ''-'' then Fin (- real (digitsValue r z))
             else Fin (real (digitsValue r z)))"
    by (simp add: parseInt_def Let_def t_def u_def hex_def r_def w_def z_def)
  from assms have n: "n = real (digitsValue r z)"
    unfolding p by (auto split: if_splits)
  have "list_all (isDigitIn r) z"
    by (auto simp: z_def list_all_iff dest: set_takeWhileD)
  then have "digitsValue r z < r ^ length z" by (rule digitsValue_bound)
  moreover from n assms(2) have "(300000 :: nat) \<le> digitsValue r z" by simp
  ultimately have big: "300000 < r ^ length z" by linarith
  have lz: "length z \<le> length w" by (simp add: z_def length_takeWhile_le)
  have lu: "length u \<le> length s"
  proof -
    have "length u \<le> length t" by (simp add: u_def)
    also have "length t \<le> length s" by (simp add: t_def trimStart_def length_dropWhile_le)
    finally show ?thesis .
  qed
  show ?thesis
  proof (cases hex)
    case True
    then have r16: "r = 16" by (simp add: r_def)
    have "\<not> length z \<le> 4"
    proof
      assume "length z \<le> 4"
      then have "(16 :: nat) ^ length z \<le> 16 ^ 4" by (intro power_increasing) simp_all
      with big r16 show False by simp
    qed
    moreover have "2 \<le> length u"
    proof -
      from True have "length (take 2 u) = 2" by (auto simp: hex_def simp del: length_take)
      then show ?thesis by simp
    qed
    moreover from True have "length w = length u - 2" by (simp add: w_def)
    ultimately show ?thesis using lz lu by linarith
  next
    case False
    then have r10: "r = 10" by (simp add: r_def)
    have "\<not> length z \<le> 5"
    proof
      assume "length z \<le> 5"
      then have "(10 :: nat) ^ length z \<le> 10 ^ 5" by (intro power_increasing) simp_all
      with big r10 show False by simp
    qed
    moreover from False have "w = u" by (simp add: w_def)
    ultimately show ?thesis using lz lu by simp
  qed
qed

lemma padStart_long: "n \<le> length s \<Longrightarrow> padStart s n c = s"
  by (simp add: padStart_def)

lemma parseInt_cases: "parseInt s = NaN \<or> (\<exists>n. parseInt s = Fin n)"
  by (simp add: parseInt_def Let_def)

text \<open>
  Claim C9. A raw symbol without a dot that \<open>parseInt\<close> reads as a number is returned
  left-padded with \<open>0\<close> to six characters and followed by a suffix: \<open>.SH\<close> when the
  number lies in 600000 to 699999, \<open>.SZ\<close> for 300000 to 309999, 2000 to 2999, 0 to 3999
  and every other number.
\<close>

theorem symbolToTsCode_ranges:
  assumes "CHR ''.'' \<notin> set symbol" and "parseInt symbol = Fin n"
  shows "symbolToTsCode symbol
           = padStart symbol 6 (CHR ''0'')
             @ (if 600000 \<le> n \<and> n \<le> 699999 then ''.SH'' else ''.SZ'')"
proof -
  have long: "padStart symbol 6 (CHR ''0'') = symbol" if "300000 \<le> n"
    using parseInt_large_length [OF assms(2) that] by (rule padStart_long)
  show ?thesis
  proof (cases "600000 \<le> n \<and> n \<le> 699999")
    case True
    with long have "padStart symbol 6 (CHR ''0'') = symbol" by simp
    with True assms show ?thesis
      by (simp add: symbolToTsCode_def Let_def nge_def nle_def)
  next
    case False
    show ?thesis
    proof (cases "300000 \<le> n \<and> n \<le> 309999")
      case True
      with long have "padStart symbol 6 (CHR ''0'') = symbol" by simp
      with True False assms show ?thesis
        by (simp add: symbolToTsCode_def Let_def nge_def nle_def)
    next
      case no: False
      from False no have "\<not> (\<not> n < 600000 \<and> \<not> 699999 < n)" "\<not> (\<not> n < 300000 \<and> \<not> 309999 < n)"
        "\<not> (\<not> n < 600000 \<and> \<not> 609999 < n)"
        by auto
      with False assms show ?thesis
        by (simp add: symbolToTsCode_def Let_def nge_def nle_def) auto
    qed
  qed
qed

theorem symbolToTsCode_ranges_witness:
  "symbolToTsCode ''600519'' = ''600519.SH'' \<and> symbolToTsCode ''651'' = ''000651.SZ''"
proof -
  have a: "parseInt ''600519'' = Fin 600519"
    by (simp add: parseInt_def trimStart_def isWhiteSpace_def isDigitIn_def digitOf_def
        digitsValue_def)
  have b: "parseInt ''651'' = Fin 651"
    by (simp add: parseInt_def trimStart_def isWhiteSpace_def isDigitIn_def digitOf_def
        digitsValue_def)
  have c: "CHR ''.'' \<notin> set ''600519''" "CHR ''.'' \<notin> set ''651''" by simp_all
  have d: "padStart ''600519'' 6 (CHR ''0'') = ''600519''" "padStart ''651'' 6 (CHR ''0'') = ''000651''"
    by (simp_all add: padStart_def numeral_3_eq_3)
  from symbolToTsCode_ranges [OF c(1) a] symbolToTsCode_ranges [OF c(2) b]
  show ?thesis unfolding d by simp
qed

text \<open>
  Claim C8. A raw symbol that already contains the separator \<open>.\<close> is returned unchanged,
  and normalising a normalised code changes nothing.
\<close>

theorem symbolToTsCode_idempotent:
  "(CHR ''.'' \<in> set symbol \<longrightarrow> symbolToTsCode symbol = symbol) \<and>
   symbolToTsCode (symbolToTsCode symbol) = symbolToTsCode symbol"
proof -
  have fixed: "symbolToTsCode s = s" if "CHR ''.'' \<in> set s" for s
    using that by (simp add: symbolToTsCode_def)
  have "CHR ''.'' \<in> set (symbolToTsCode symbol)"
    by (simp add: symbolToTsCode_def Let_def)
  then have "symbolToTsCode (symbolToTsCode symbol) = symbolToTsCode symbol"
    by (rule fixed)
  with fixed show ?thesis by simp
qed

theorem symbolToTsCode_idempotent_witness:
  "symbolToTsCode ''000651.SZ'' = ''000651.SZ'' \<and>
   symbolToTsCode (symbolToTsCode ''651'') = symbolToTsCode ''651''"
proof -
  have "CHR ''.'' \<in> set ''000651.SZ''" by simp
  with symbolToTsCode_idempotent [of "''000651.SZ''"] symbolToTsCode_idempotent [of "''651''"]
  show ?thesis by blast
qed

subsection \<open>The factor worker\<close>

text \<open>
  Claim C6. When EBIT, total assets and current liabilities are present, nonzero numbers
  and the capital employed (total assets minus current liabilities) is positive, the
  worker's ROCE is EBIT divided by the capital employed, times 100; EBIT 100, total
  assets 1000 and current liabilities 200 give 12.5. When an input is missing or the
  capital employed is not positive, the ROCE is \<open>null\<close>, and the worker returns it as it
  is, not replaced by zero.
\<close>

theorem roceOf_value_or_null:
  "(e \<noteq> 0 \<and> a \<noteq> 0 \<and> l \<noteq> 0 \<and> 0 < a - l \<longrightarrow>
      roceOf (Num (Fin e)) (Num (Fin a)) (Num (Fin l)) = Num (Fin (e / (a - l) * 100))) \<and>
   roceOf (Num (Fin 100)) (Num (Fin 1000)) (Num (Fin 200)) = Num (Fin 12.5) \<and>
   (\<not> truthy ebit \<or> \<not> truthy totalAssets \<or> \<not> truthy currentLiab \<or>
      \<not> ngt (js_sub totalAssets currentLiab) (Fin 0) \<longrightarrow>
      roceOf ebit totalAssets currentLiab = Null) \<and>
   roce (factorWorker stockCode dailyBasicInfo incomeData balanceData)
     = roceOf (ebitOf incomeData) (fst (balanceOf balanceData)) (snd (balanceOf balanceData))"
proof -
  have computed: "roceOf (Num (Fin x)) (Num (Fin y)) (Num (Fin z)) = Num (Fin (x / (y - z) * 100))"
    if "x \<noteq> 0" "y \<noteq> 0" "z \<noteq> 0" "0 < y - z" for x y z :: real
    using that by (simp add: roceOf_def js_sub_def nsub_def ngt_def Let_def)
  have "roceOf (Num (Fin 100)) (Num (Fin 1000)) (Num (Fin 200)) = Num (Fin (100 / (1000 - 200) * 100))"
    by (rule computed) simp_all
  then have example: "roceOf (Num (Fin 100)) (Num (Fin 1000)) (Num (Fin 200)) = Num (Fin 12.5)"
    by simp
  have absent: "roceOf ebit totalAssets currentLiab = Null"
    if "\<not> truthy ebit \<or> \<not> truthy totalAssets \<or> \<not> truthy currentLiab \<or>
        \<not> ngt (js_sub totalAssets currentLiab) (Fin 0)"
    using that by (auto simp: roceOf_def Let_def)
  have passed: "roce (factorWorker stockCode dailyBasicInfo incomeData balanceData)
     = roceOf (ebitOf incomeData) (fst (balanceOf balanceData)) (snd (balanceOf balanceData))"
    by (simp add: factorWorker_def Let_def split: prod.splits)
  from computed example absent passed show ?thesis by blast
qed

theorem roceOf_value_or_null_witness:
  "roceOf (Num (Fin 50)) (Num (Fin 300)) (Num (Fin 100)) = Num (Fin 25) \<and>
   roceOf (Num (Fin 50)) (Num (Fin 100)) (Num (Fin 300)) = Null \<and>
   roceOf (Num (Fin 50)) (Num (Fin 300)) Null = Null"
proof -
  have "roceOf (Num (Fin 50)) (Num (Fin 300)) (Num (Fin 100)) = Num (Fin (50 / (300 - 100) * 100))"
    using roceOf_value_or_null [of 50 300 100] by simp
  moreover have "roceOf (Num (Fin 50)) (Num (Fin 100)) (Num (Fin 300)) = Null"
    using roceOf_value_or_null [of _ _ _ "Num (Fin 50)" "Num (Fin 100)" "Num (Fin 300)"]
    by (simp add: js_sub_def nsub_def ngt_def)
  moreover have "roceOf (Num (Fin 50)) (Num (Fin 300)) Null = Null"
    using roceOf_value_or_null [of _ _ _ "Num (Fin 50)" "Num (Fin 300)" Null]
    by simp
  ultimately show ?thesis by simp
qed

subsection \<open>The net-value aggregator: normalisation\<close>

lemma ascending_insertBy:
  fixes k :: "'a \<Rightarrow> string"
  assumes "sorted_wrt (\<lambda>a b. k a \<le> k b) ys"
  shows "sorted_wrt (\<lambda>a b. k a \<le> k b) (insertBy (\<lambda>a b. localeCompare (k a) (k b)) x ys)"
  using assms
  by (induction ys) (auto simp: ngt_localeCompare set_insertBy)

lemma ascending_sortBy_aux:
  fixes k :: "'a \<Rightarrow> string"
  shows "sorted_wrt (\<lambda>a b. k a \<le> k b) acc \<Longrightarrow>
    sorted_wrt (\<lambda>a b. k a \<le> k b)
      (foldl (\<lambda>sorted x. insertBy (\<lambda>a b. localeCompare (k a) (k b)) x sorted) acc xs)"
  by (induction xs arbitrary: acc) (auto simp: ascending_insertBy)

lemma ascending_sortBy:
  fixes k :: "'a \<Rightarrow> string"
  shows "sorted_wrt (\<lambda>a b. k a \<le> k b) (sortBy (\<lambda>a b. localeCompare (k a) (k b)) xs)"
  by (simp add: sortBy_def ascending_sortBy_aux)

lemma mergedSeries_ascending:
  assumes "mergedSeries stocksData weightMap = Inr raw"
  shows "sorted_wrt js_le (map fst raw)"
proof -
  define entries where "entries = map (\<lambda>(date, count, sum). (date, sum))
                                    (foldl (addStock weightMap) [] stocksData)"
  have m: "mergedSeries stocksData weightMap =
      (if length entries \<le> 1 then Inr entries
       else if list_all (\<lambda>e. isStr (fst e)) entries
         then Inr (sortBy (\<lambda>a b. localeCompare (strOf (fst a)) (strOf (fst b))) entries)
       else Inl TypeError)"
    by (simp add: mergedSeries_def Let_def entries_def)
  show ?thesis
  proof (cases "length entries \<le> 1")
    case True
    with assms m have "raw = entries" by simp
    with True show ?thesis by (cases raw) auto
  next
    case False
    with assms m have strs: "list_all (\<lambda>e. isStr (fst e)) entries"
      and raw: "raw = sortBy (\<lambda>a b. localeCompare (strOf (fst a)) (strOf (fst b))) entries"
      by (auto split: if_splits)
    have asc: "sorted_wrt (\<lambda>a b. strOf (fst a) \<le> strOf (fst b)) raw"
      unfolding raw by (rule ascending_sortBy)
    have allstr: "\<forall>e \<in> set raw. isStr (fst e)"
      using strs by (simp add: raw set_sortBy list_all_iff)
    have imp: "js_le (fst a) (fst b)"
      if "a \<in> set raw" "b \<in> set raw" "strOf (fst a) \<le> strOf (fst b)" for a b
      using that allstr by (cases "fst a"; cases "fst b") auto
    have "sorted_wrt (\<lambda>a b. js_le (fst a) (fst b)) raw"
      by (rule sorted_wrt_mono_rel [OF imp asc])
    then show ?thesis by (simp add: sorted_wrt_map)
  qed
qed

text \<open>
  Claim C7. When the merged series of sums by date, in ascending date order, starts
  with a positive value, \<open>calculatePortfolioNetValue\<close> returns that series with every
  value divided by the first one, so the first point is 1; the dates stay ascending. The
  series 100, 110, 99 becomes 1, 1.1, 0.99.
\<close>

theorem calculatePortfolioNetValue_normalised:
  assumes "mergedSeries stocksData weightMap = Inr raw"
    and "raw \<noteq> []"
    and "snd (raw ! 0) = Fin v"
    and "0 < v"
  shows "\<exists>result.
           calculatePortfolioNetValue stocksData weightMap = Inr result \<and>
           result = map (\<lambda>(date, netValue). (date, ndiv netValue (Fin v))) raw \<and>
           snd (result ! 0) = Fin 1 \<and>
           sorted_wrt js_le (map fst result) \<and>
           normalizeNetValue [(d1, Fin 100), (d2, Fin 110), (d3, Fin 99)]
             = [(d1, Fin 1), (d2, Fin 1.1), (d3, Fin 0.99)]"
proof -
  define result where "result = map (\<lambda>(date, netValue). (date, ndiv netValue (Fin v))) raw"
  have norm: "normalizeNetValue raw = result"
    using assms(2-4) by (simp add: normalizeNetValue_def Let_def ngt_def result_def)
  have res: "calculatePortfolioNetValue stocksData weightMap = Inr result"
    by (simp add: calculatePortfolioNetValue_def assms(1) norm)
  from assms(2) obtain d x rest where raw: "raw = (d, x) # rest"
    by (cases raw) auto
  with assms(3,4) have first: "snd (result ! 0) = Fin 1"
    by (simp add: result_def)
  have "map fst result = map fst raw"
    by (simp add: result_def comp_def case_prod_beta)
  then have asc: "sorted_wrt js_le (map fst result)"
    using mergedSeries_ascending [OF assms(1)] by simp
  have example: "normalizeNetValue [(d1, Fin 100), (d2, Fin 110), (d3, Fin 99)]
             = [(d1, Fin 1), (d2, Fin 1.1), (d3, Fin 0.99)]"
    by (simp add: normalizeNetValue_def ngt_def)
  from res first asc example show ?thesis unfolding result_def by blast
qed

theorem calculatePortfolioNetValue_normalised_witness:
  "calculatePortfolioNetValue
     [(''600000.SH'', Some (Tabular [''trade_date'', ''close'']
         [[Str ''20240103'', Num (Fin 99)], [Str ''20240101'', Num (Fin 100)],
          [Str ''20240102'', Num (Fin 110)]])),
      (''000001.SZ'', Some (Tabular [''trade_date'', ''close'']
         [[Str ''20240102'', Num (Fin 5)], [Str ''20240103'', Num (Fin 6)]]))]
     [''600000.SH'' \<mapsto> Fin (1 / 2), ''000001.SZ'' \<mapsto> Fin (1 / 2)]
   = Inr [(Str ''20240101'', Fin 1), (Str ''20240102'', Fin (21 / 10)),
          (Str ''20240103'', Fin (219 / 100))]"
proof -
  let ?stocksData = "[(''600000.SH'', Some (Tabular [''trade_date'', ''close'']
         [[Str ''20240103'', Num (Fin 99)], [Str ''20240101'', Num (Fin 100)],
          [Str ''20240102'', Num (Fin 110)]])),
      (''000001.SZ'', Some (Tabular [''trade_date'', ''close'']
         [[Str ''20240102'', Num (Fin 5)], [Str ''20240103'', Num (Fin 6)]]))]"
  let ?weightMap = "[''600000.SH'' \<mapsto> Fin (1 / 2), ''000001.SZ'' \<mapsto> Fin (1 / 2)]"
  let ?raw = "[(Str ''20240101'', Fin (1 / 2)), (Str ''20240102'', Fin (21 / 20)),
          (Str ''20240103'', Fin (219 / 200))]"
  have dates:
    "StringToNumber ''20240101'' = Fin 20240101"
    "StringToNumber ''20240102'' = Fin 20240102"
    "StringToNumber ''20240103'' = Fin 20240103"
    by (simp_all add: StringToNumber_def trim_def isWhiteSpace_def strUnsignedDecimal_def
        isDigitIn_def digitOf_def digitsValue_def pow10_def Let_def)
  have h1: "mergedSeries ?stocksData ?weightMap = Inr ?raw"
    by (simp add: mergedSeries_def addStock_def weightOf_def sortBy_def cell_def js_sub_def
        js_div_def nsub_def ngt_def dates localeCompare_def Let_def)
  have h2: "?raw \<noteq> []" by simp
  have h3: "snd (?raw ! 0) = Fin (1 / 2)" by simp
  have h4: "(0 :: real) < 1 / 2" by simp
  from calculatePortfolioNetValue_normalised [OF h1 h2 h3 h4]
  show ?thesis by auto
qed

subsection \<open>The net-value aggregator: unguarded divisions\<close>

text \<open>
  Claim C3 says that no NaN and no division by zero reaches the output of the weight
  engine and of the two net-value functions. The code breaks it at two inputs. A fund
  table without the columns \<open>nav\<close> and \<open>close\<close> makes every \<open>nav || close\<close> \<open>undefined\<close>: the
  base falls back to 1 (line 438), the numerator of line 442 has no fallback, and
  \<open>calculateETFNetValue\<close> returns NaN. A stock whose first close is \<open>null\<close> makes
  \<open>calculatePortfolioNetValue\<close> divide by zero at line 304, where the base of line 298
  has no guard, unlike the bases of lines 327 and 438: it returns NaN and an infinity.
\<close>

theorem netValue_emits_NaN:
  "calculateETFNetValue
     (Some (Tabular [''ts_code'', ''trade_date'', ''open'']
        [[Str ''512890.SH'', Str ''20240102'', Num (Fin 1)]]))
   = [(Str ''20240102'', NaN)] \<and>
   calculatePortfolioNetValue
     [(''600000.SH'', Some (Tabular [''trade_date'', ''close'']
         [[Str ''20240101'', Null], [Str ''20240102'', Num (Fin 10)]]))]
     [''600000.SH'' \<mapsto> Fin 1]
   = Inr [(Str ''20240101'', NaN), (Str ''20240102'', PosInf)]"
proof -
  have dates:
    "StringToNumber ''20240101'' = Fin 20240101"
    "StringToNumber ''20240102'' = Fin 20240102"
    by (simp_all add: StringToNumber_def trim_def isWhiteSpace_def strUnsignedDecimal_def
        isDigitIn_def digitOf_def digitsValue_def pow10_def Let_def)
  have etf: "calculateETFNetValue
     (Some (Tabular [''ts_code'', ''trade_date'', ''open'']
        [[Str ''512890.SH'', Str ''20240102'', Num (Fin 1)]]))
   = [(Str ''20240102'', NaN)]"
    by (simp add: calculateETFNetValue_def sortBy_def cell_def js_or_def js_div_def Let_def)
  have merged: "mergedSeries
     [(''600000.SH'', Some (Tabular [''trade_date'', ''close'']
         [[Str ''20240101'', Null], [Str ''20240102'', Num (Fin 10)]]))]
     [''600000.SH'' \<mapsto> Fin 1]
   = Inr [(Str ''20240101'', NaN), (Str ''20240102'', PosInf)]"
    by (simp add: mergedSeries_def addStock_def weightOf_def sortBy_def cell_def js_sub_def
        js_div_def nsub_def ngt_def dates localeCompare_def inf_of_sign_def Let_def)
  have "calculatePortfolioNetValue
     [(''600000.SH'', Some (Tabular [''trade_date'', ''close'']
         [[Str ''20240101'', Null], [Str ''20240102'', Num (Fin 10)]]))]
     [''600000.SH'' \<mapsto> Fin 1]
   = Inr [(Str ''20240101'', NaN), (Str ''20240102'', PosInf)]"
    by (simp add: calculatePortfolioNetValue_def merged normalizeNetValue_def ngt_def)
  with etf show ?thesis by simp
qed

subsection \<open>The batch scheduler: a window of size 0\<close>

text \<open>
  With a window size of 0 the loop does not advance: on a non-empty list
  \<open>batchProcess\<close> never returns a result list. (It can still reject, when a worker of
  the first window rejects.)
\<close>

lemma batchProcess_loop_zero_window:
  fixes xs :: "'a list" and processor :: "'a \<Rightarrow> int \<Rightarrow> 'e + 'r"
  assumes "batchProcess_loop xs processor batchSize settleOrder i results = Some y"
  shows "\<forall>rs. y = Inr rs \<longrightarrow> batchSize = 0 \<longrightarrow> \<not> i < int (length xs)"
proof (rule batchProcess_loop.raw_induct
    [where P = "\<lambda>xs processor batchSize settleOrder i results y.
       \<forall>rs. y = Inr rs \<longrightarrow> batchSize = 0 \<longrightarrow> \<not> i < int (length xs)", OF _ assms])
  fix loop :: "'a list \<Rightarrow> ('a \<Rightarrow> int \<Rightarrow> 'e + 'r) \<Rightarrow> int \<Rightarrow> (int \<Rightarrow> nat list) \<Rightarrow> int \<Rightarrow> 'r list
     \<Rightarrow> ('e + 'r list) option"
  fix xs :: "'a list" and processor :: "'a \<Rightarrow> int \<Rightarrow> 'e + 'r" and batchSize :: int
    and settleOrder :: "int \<Rightarrow> nat list" and i :: int and results :: "'r list"
    and y :: "'e + 'r list"
  assume IH: "\<And>xs processor batchSize settleOrder i results y.
      loop xs processor batchSize settleOrder i results = Some y \<Longrightarrow>
      \<forall>rs. y = Inr rs \<longrightarrow> batchSize = 0 \<longrightarrow> \<not> i < int (length xs)"
  assume body: "(if i < int (length xs)
      then let batch = js_slice xs i (i + batchSize);
               promises = map (\<lambda>(item, batchIndex). processor item (i + int batchIndex))
                            (zip batch [0..<length batch])
           in case Promise_all promises (settleOrder i) of None \<Rightarrow> None
              | Some (Inl e) \<Rightarrow> Some (Inl e)
              | Some (Inr batchResults) \<Rightarrow>
                  loop xs processor batchSize settleOrder (i + batchSize) (results @ batchResults)
      else Some (Inr results)) = Some y"
  show "\<forall>rs. y = Inr rs \<longrightarrow> batchSize = 0 \<longrightarrow> \<not> i < int (length xs)"
  proof (intro allI impI notI)
    fix rs assume y: "y = Inr rs" and zero: "batchSize = 0" and lt: "i < int (length xs)"
    from body lt y obtain batchResults where
      "loop xs processor batchSize settleOrder (i + batchSize) (results @ batchResults)
         = Some (Inr rs)"
      by (auto simp: Let_def split: option.splits sum.splits)
    from IH [OF this] zero lt show False by simp
  qed
qed

lemma batchProcess_zero_window:
  "batchProcess (x # xs) processor 0 settleOrder \<noteq> Some (Inr rs)"
  using batchProcess_loop_zero_window [of "x # xs" processor 0 settleOrder 0 "[]" "Inr rs"]
  by (auto simp: batchProcess_def)

subsection \<open>Rounding to a double: the binade and the nearest integer\<close>






lemma p2_strict_mono: "a < b \<Longrightarrow> (2 :: real) powi a < 2 powi b"
  by (simp add: power_int_strict_increasing)















subsection \<open>Rounding to a double: error, monotonicity, fixed points\<close>




lemma p2_le_imp: "(2 :: real) powi a \<le> 2 powi b \<Longrightarrow> a \<le> b"
  using p2_strict_mono [of b a] by (cases "a \<le> b") auto











































subsection \<open>The weight engine on doubles: scores\<close>

lemma rd64_zero: "rd64 0 = Fin 0"
  by (simp add: rd64_def)















subsection \<open>The weight engine on doubles: the total score and the weights\<close>














subsection \<open>The weight engine on doubles: proportional weights\<close>


subsection \<open>The weight engine on doubles: two evaluations\<close>



lemma div64_zero: "b \<noteq> 0 \<Longrightarrow> div64 (Fin 0) (Fin b) = Fin 0"
  by (simp add: div64_def round64_def rd64_zero)






















end
